theory Spec2Isabelle
  imports Complex_Main "HOL-Library.Word" "HOL-Library.AList"
begin

section \<open>Phoenix AID example servers: data model\<close>

text \<open>
  The repository holds example HTTP servers (FastAPI route handlers) whose bodies read an
  upload, optionally open it as an image, and return literal dictionaries. The handlers
  are embedded as HOL functions from the handler's parameters to its outcome: the value it
  returns, the \<open>HTTPException\<close> it raises, or an exception it lets through.

  What the handlers take from outside the repository is a parameter of the model:
  \<^item> Python's \<open>float\<close>: the arithmetic, the reading of a decimal literal and the test
    \<open>x == 0.0\<close> (which decides the truth value of a float) are the fields of
    \<open>float_ops\<close>, over any carrier \<open>'f\<close>;
  \<^item> \<open>PIL.Image.open\<close>: a function from the bytes read to an image or an exception
    (\<open>PIL_Image_open\<close> below is the library's own way of failing);
  \<^item> \<open>UploadFile\<close>: its \<open>filename\<close> and the result of \<open>await image.read()\<close>.
\<close>

type_synonym byte = "8 word"

text \<open>
  A raised instance of Python's class \<open>Exception\<close>, the class that the handlers'
  \<open>except Exception as e\<close> matches; \<open>str_of e\<close> is \<open>str(e)\<close>. What Python raises
  outside that class (\<open>KeyboardInterrupt\<close>, \<open>SystemExit\<close>, the cancellation of a task)
  is not an error of reading or decoding and has no place in the model.
\<close>

datatype exception = Exception (str_of: string)

text \<open>
  How a call of a handler ends: \<open>return v\<close>, \<open>raise HTTPException(status_code, detail)\<close>
  (which the framework answers with that status and the body \<open>{"detail": detail}\<close>),
  or another exception leaving the handler.
\<close>

datatype 'a outcome = Return 'a | Raise_HTTPException int string | Raise exception

text \<open>The values the handlers build: \<open>None\<close>, \<open>str\<close>, \<open>int\<close>, \<open>float\<close>, \<open>list\<close>, \<open>dict\<close>
  (a dictionary keeps insertion order, so it is an association list).\<close>

datatype 'f pyval =
    PNone
  | PStr string
  | PInt int
  | PFloat 'f
  | PList "'f pyval list"
  | PDict "(string \<times> 'f pyval) list"

record 'f float_ops =
  float_of_decimal :: "int \<Rightarrow> nat \<Rightarrow> 'f"
  float_add :: "'f \<Rightarrow> 'f \<Rightarrow> 'f"
  float_sub :: "'f \<Rightarrow> 'f \<Rightarrow> 'f"
  float_is_zero :: "'f \<Rightarrow> bool"

text \<open>\<open>float_of_decimal fl m k\<close> is the float that the literal \<open>m / 10^k\<close> denotes:
  \<open>0.05\<close> is \<open>float_of_decimal fl 5 2\<close>.\<close>

record UploadFile =
  filename :: "string option"
  read :: "exception + byte list"

text \<open>An \<open>Optional[str]\<close> and an \<open>Optional[float]\<close> as values.\<close>

definition opt_str :: "string option \<Rightarrow> 'f pyval" where
  "opt_str s = (case s of None \<Rightarrow> PNone | Some t \<Rightarrow> PStr t)"

definition opt_float :: "'f option \<Rightarrow> 'f pyval" where
  "opt_float x = (case x of None \<Rightarrow> PNone | Some y \<Rightarrow> PFloat y)"

text \<open>Python's truth value of an object, and \<open>a and b\<close>, which is \<open>a\<close> when \<open>a\<close> is
  false and \<open>b\<close> otherwise.\<close>

fun truthy :: "'f float_ops \<Rightarrow> 'f pyval \<Rightarrow> bool" where
  "truthy fl PNone = False"
| "truthy fl (PStr s) = (s \<noteq> [])"
| "truthy fl (PInt n) = (n \<noteq> 0)"
| "truthy fl (PFloat x) = (\<not> float_is_zero fl x)"
| "truthy fl (PList xs) = (xs \<noteq> [])"
| "truthy fl (PDict kvs) = (kvs \<noteq> [])"

definition py_and :: "'f float_ops \<Rightarrow> 'f pyval \<Rightarrow> 'f pyval \<Rightarrow> 'f pyval" where
  "py_and fl a b = (if truthy fl a then b else a)"

text \<open>The keys of a dictionary, \<open>d.get(k)\<close>, and \<open>len\<close> of a list or of bytes.\<close>

fun keys :: "'f pyval \<Rightarrow> string list" where
  "keys (PDict kvs) = map fst kvs"
| "keys _ = []"

fun dict_get :: "'f pyval \<Rightarrow> string \<Rightarrow> 'f pyval option" where
  "dict_get (PDict kvs) k = map_of kvs k"
| "dict_get _ k = None"

definition len :: "'a list \<Rightarrow> int" where
  "len xs = int (length xs)"

text \<open>
  \<open>try: body except Exception as e: raise HTTPException(status_code=500, detail=str(e))\<close>
  around a body that ends in \<open>return\<close>, and a body with no \<open>try\<close> around it.
\<close>

definition except_Exception_500 :: "exception + 'a \<Rightarrow> 'a outcome" where
  "except_Exception_500 body =
     (case body of Inr v \<Rightarrow> Return v | Inl e \<Rightarrow> Raise_HTTPException 500 (str_of e))"

definition no_try :: "exception + 'a \<Rightarrow> 'a outcome" where
  "no_try body = (case body of Inr v \<Rightarrow> Return v | Inl e \<Rightarrow> Raise e)"

text \<open>
  \<open>Image.open(io.BytesIO(contents))\<close> is the library's. It asks its format plugins
  in turn to identify the stream and decodes no pixel: a plugin returns the image, or a
  plugin raises an error of its own that is passed on, or no plugin accepts the stream and
  the function ends in
  \<open>raise UnidentifiedImageError("cannot identify image file %r" % fp)\<close>. The plugins
  and the \<open>repr\<close> of the \<open>BytesIO\<close> object are parameters.
\<close>

datatype 'img identified = Identified 'img | Unidentified | Plugin_error exception

definition PIL_Image_open ::
  "(byte list \<Rightarrow> 'img identified) \<Rightarrow> string \<Rightarrow> byte list \<Rightarrow> exception + 'img" where
  "PIL_Image_open plugins fp_repr contents =
     (case plugins contents of
        Identified im \<Rightarrow> Inr im
      | Plugin_error e \<Rightarrow> Inl e
      | Unidentified \<Rightarrow> Inl (Exception (''cannot identify image file '' @ fp_repr)))"

section \<open>api_server_template.py\<close>

definition get_status_template :: "'f pyval outcome" where
  "get_status_template =
     Return (PDict
       [(''status'', PStr ''operational''),
        (''active_wildfires'', PInt 0),
        (''risk_level'', PStr ''low''),
        (''last_update'', PStr ''2024-01-01T00:00:00Z'')])"

text \<open>\<open>upload_image\<close>: the body of the \<open>try\<close>, then the handler.\<close>

definition upload_image_template_body ::
  "'f float_ops \<Rightarrow> (byte list \<Rightarrow> exception + 'img) \<Rightarrow> UploadFile \<Rightarrow>
   'f option \<Rightarrow> 'f option \<Rightarrow> string option \<Rightarrow> exception + 'f pyval" where
  "upload_image_template_body fl Image_open img latitude longitude timestamp =
     (case read img of
        Inl e \<Rightarrow> Inl e
      | Inr contents \<Rightarrow>
         (case Image_open contents of
            Inl e \<Rightarrow> Inl e
          | Inr image_pil \<Rightarrow>
             (let prediction = PDict
                    [(''risk_level'', PStr ''medium''),
                     (''confidence'', PFloat (float_of_decimal fl 75 2)),
                     (''recommendations'', PList
                        [PStr ''Monitor area for 24 hours'',
                         PStr ''Prepare evacuation routes'',
                         PStr ''Alert nearby infrastructure''])];
                  response =
                    [(''message'', PStr ''Image uploaded successfully''),
                     (''filename'', opt_str (filename img)),
                     (''size'', PInt (len contents)),
                     (''timestamp'', opt_str timestamp),
                     (''prediction'', prediction)]
              in Inr (PDict
                   (if truthy fl (py_and fl (opt_float latitude) (opt_float longitude))
                    then AList.update ''location''
                           (PDict [(''lat'', opt_float latitude), (''lng'', opt_float longitude)])
                           response
                    else response)))))"

definition upload_image_template ::
  "'f float_ops \<Rightarrow> (byte list \<Rightarrow> exception + 'img) \<Rightarrow> UploadFile \<Rightarrow>
   'f option \<Rightarrow> 'f option \<Rightarrow> string option \<Rightarrow> 'f pyval outcome" where
  "upload_image_template fl Image_open img latitude longitude timestamp =
     except_Exception_500
       (upload_image_template_body fl Image_open img latitude longitude timestamp)"

definition predict_wildfire_template_body ::
  "'f float_ops \<Rightarrow> (byte list \<Rightarrow> exception + 'img) \<Rightarrow> UploadFile \<Rightarrow> exception + 'f pyval" where
  "predict_wildfire_template_body fl Image_open img =
     (case read img of
        Inl e \<Rightarrow> Inl e
      | Inr contents \<Rightarrow>
         (case Image_open contents of
            Inl e \<Rightarrow> Inl e
          | Inr image_pil \<Rightarrow>
             (let prediction = PDict
                    [(''risk_level'', PStr ''high''),
                     (''confidence'', PFloat (float_of_decimal fl 85 2)),
                     (''affected_areas'', PList [PStr ''Area A'', PStr ''Area B'']),
                     (''recommendations'', PDict
                        [(''infrastructure'', PList
                            [PStr ''Secure power lines in affected zone'',
                             PStr ''Prepare water supply systems'',
                             PStr ''Alert transportation department'']),
                         (''evacuation'', PList
                            [PStr ''Route 1: Clear'',
                             PStr ''Route 2: Monitor''])])]
              in Inr prediction)))"

definition predict_wildfire_template ::
  "'f float_ops \<Rightarrow> (byte list \<Rightarrow> exception + 'img) \<Rightarrow> UploadFile \<Rightarrow> 'f pyval outcome" where
  "predict_wildfire_template fl Image_open img =
     except_Exception_500 (predict_wildfire_template_body fl Image_open img)"

text \<open>The recommendations literal, which both servers return.\<close>

definition infrastructure_recommendations_literal :: "'f pyval" where
  "infrastructure_recommendations_literal =
     PDict
       [(''recommendations'', PList
           [PDict
              [(''infrastructure_type'', PStr ''power_lines''),
               (''action'', PStr ''De-energize affected lines''),
               (''priority'', PStr ''high''),
               (''estimated_time'', PStr ''2 hours'')],
            PDict
              [(''infrastructure_type'', PStr ''water_supply''),
               (''action'', PStr ''Increase water pressure in fire zones''),
               (''priority'', PStr ''high''),
               (''estimated_time'', PStr ''30 minutes'')]]),
        (''evacuation_routes'', PDict
           [(''status'', PStr ''clear''),
            (''alternate_routes'', PList [PStr ''Route A'', PStr ''Route B''])])]"

definition get_infrastructure_recommendations_template :: "'f pyval \<Rightarrow> 'f pyval outcome" where
  "get_infrastructure_recommendations_template wildfire_data =
     except_Exception_500 (Inr infrastructure_recommendations_literal)"

text \<open>
  \<open>radius: float = Query(50, ...)\<close>: the handler receives the query's float when the
  request has one and the default, the literal \<open>50\<close>, when it has none.
\<close>

definition radius_param :: "'f option \<Rightarrow> 'f pyval" where
  "radius_param radius = (case radius of None \<Rightarrow> PInt 50 | Some r \<Rightarrow> PFloat r)"

definition get_wildfires_nearby_template :: "'f \<Rightarrow> 'f \<Rightarrow> 'f option \<Rightarrow> 'f pyval outcome" where
  "get_wildfires_nearby_template lat lng radius =
     except_Exception_500
       (Inr (PDict
          [(''wildfires'', PList []),
           (''total'', PInt 0),
           (''radius_km'', radius_param radius)]))"

definition get_all_active_wildfires_template :: "'f pyval outcome" where
  "get_all_active_wildfires_template =
     except_Exception_500
       (Inr (PDict
          [(''wildfires'', PList []),
           (''total'', PInt 0)]))"

section \<open>backend_integration_example.py\<close>

definition get_status_integration :: "'f pyval outcome" where
  "get_status_integration =
     Return (PDict
       [(''status'', PStr ''operational''),
        (''active_wildfires'', PInt 0),
        (''risk_level'', PStr ''low''),
        (''last_update'', PStr ''2024-01-01T00:00:00Z'')])"

text \<open>This server reads the upload and never opens it as an image.\<close>

definition upload_image_integration_body ::
  "'f float_ops \<Rightarrow> UploadFile \<Rightarrow> string option \<Rightarrow> exception + 'f pyval" where
  "upload_image_integration_body fl img timestamp =
     (case read img of
        Inl e \<Rightarrow> Inl e
      | Inr contents \<Rightarrow>
          Inr (PDict
            [(''message'', PStr ''Image uploaded successfully''),
             (''filename'', opt_str (filename img)),
             (''size'', PInt (len contents)),
             (''timestamp'', opt_str timestamp),
             (''prediction'', PDict
                [(''risk_level'', PStr ''medium''),
                 (''confidence'', PFloat (float_of_decimal fl 75 2)),
                 (''recommendations'', PList
                    [PStr ''Monitor area for 24 hours'',
                     PStr ''Prepare evacuation routes'',
                     PStr ''Alert nearby infrastructure''])])]))"

definition upload_image_integration ::
  "'f float_ops \<Rightarrow> UploadFile \<Rightarrow> string option \<Rightarrow> 'f pyval outcome" where
  "upload_image_integration fl img timestamp =
     except_Exception_500 (upload_image_integration_body fl img timestamp)"

definition predict_wildfire_integration_body ::
  "'f float_ops \<Rightarrow> UploadFile \<Rightarrow> exception + 'f pyval" where
  "predict_wildfire_integration_body fl img =
     (case read img of
        Inl e \<Rightarrow> Inl e
      | Inr contents \<Rightarrow>
          Inr (PDict
            [(''risk_level'', PStr ''high''),
             (''confidence'', PFloat (float_of_decimal fl 85 2)),
             (''affected_areas'', PList [PStr ''Area A'', PStr ''Area B'']),
             (''recommendations'', PDict
                [(''infrastructure'', PList
                    [PStr ''Secure power lines in affected zone'',
                     PStr ''Prepare water supply systems'',
                     PStr ''Alert transportation department'']),
                 (''evacuation'', PList
                    [PStr ''Route 1: Clear'',
                     PStr ''Route 2: Monitor''])])]))"

definition predict_wildfire_integration :: "'f float_ops \<Rightarrow> UploadFile \<Rightarrow> 'f pyval outcome" where
  "predict_wildfire_integration fl img =
     except_Exception_500 (predict_wildfire_integration_body fl img)"

text \<open>No \<open>try\<close> in this handler: its body is the \<open>return\<close> of the literal.\<close>

definition get_infrastructure_recommendations_integration :: "'f pyval \<Rightarrow> 'f pyval outcome" where
  "get_infrastructure_recommendations_integration wildfire_data =
     Return infrastructure_recommendations_literal"

section \<open>backend_map_endpoints_example.py\<close>

text \<open>
  The handlers first, as the dictionaries they return; the two \<open>get\<close> routes are
  declared with \<open>response_model=WildfireResponse\<close>, and the JSON they send is defined
  after the handlers. In \<open>- 122.4194\<close> the sign is part of the literal.
\<close>

definition get_wildfires_nearby_map ::
  "'f float_ops \<Rightarrow> 'f \<Rightarrow> 'f \<Rightarrow> 'f option \<Rightarrow> 'f pyval outcome" where
  "get_wildfires_nearby_map fl lat lng radius =
     except_Exception_500
       (let wildfires =
              [PDict
                 [(''id'', PInt 1),
                  (''lat'', PFloat (float_add fl lat (float_of_decimal fl 5 2))),
                  (''lng'', PFloat (float_add fl lng (float_of_decimal fl 5 2))),
                  (''intensity'', PStr ''high''),
                  (''confidence'', PFloat (float_of_decimal fl 85 2)),
                  (''area'', PStr ''North Region''),
                  (''detected_at'', PStr ''2024-01-01T12:00:00Z''),
                  (''status'', PStr ''active''),
                  (''affected_infrastructure'', PList [PStr ''power_lines'', PStr ''water_supply''])],
               PDict
                 [(''id'', PInt 2),
                  (''lat'', PFloat (float_sub fl lat (float_of_decimal fl 3 2))),
                  (''lng'', PFloat (float_add fl lng (float_of_decimal fl 8 2))),
                  (''intensity'', PStr ''medium''),
                  (''confidence'', PFloat (float_of_decimal fl 72 2)),
                  (''area'', PStr ''East Region''),
                  (''detected_at'', PStr ''2024-01-01T11:30:00Z''),
                  (''status'', PStr ''active''),
                  (''affected_infrastructure'', PList [PStr ''transportation''])]]
        in Inr (PDict
             [(''wildfires'', PList wildfires),
              (''total'', PInt (len wildfires)),
              (''radius_km'', radius_param radius),
              (''center_lat'', PFloat lat),
              (''center_lng'', PFloat lng)]))"

definition get_all_active_wildfires_map :: "'f float_ops \<Rightarrow> 'f pyval outcome" where
  "get_all_active_wildfires_map fl =
     except_Exception_500
       (let wildfires =
              [PDict
                 [(''id'', PInt 1),
                  (''lat'', PFloat (float_of_decimal fl 377749 4)),
                  (''lng'', PFloat (float_of_decimal fl (- 1224194) 4)),
                  (''intensity'', PStr ''high''),
                  (''confidence'', PFloat (float_of_decimal fl 85 2)),
                  (''area'', PStr ''San Francisco Bay Area''),
                  (''detected_at'', PStr ''2024-01-01T12:00:00Z''),
                  (''status'', PStr ''active'')]]
        in Inr (PDict
             [(''wildfires'', PList wildfires),
              (''total'', PInt (len wildfires))]))"

definition upload_image_with_location_body ::
  "'f float_ops \<Rightarrow> (byte list \<Rightarrow> exception + 'img) \<Rightarrow> UploadFile \<Rightarrow>
   'f option \<Rightarrow> 'f option \<Rightarrow> string option \<Rightarrow> exception + 'f pyval" where
  "upload_image_with_location_body fl Image_open img latitude longitude timestamp =
     (case read img of
        Inl e \<Rightarrow> Inl e
      | Inr contents \<Rightarrow>
         (case Image_open contents of
            Inl e \<Rightarrow> Inl e
          | Inr image_pil \<Rightarrow>
              Inr (PDict
                [(''message'', PStr ''Image uploaded successfully''),
                 (''filename'', opt_str (filename img)),
                 (''location'',
                    (if truthy fl (py_and fl (opt_float latitude) (opt_float longitude))
                     then PDict [(''lat'', opt_float latitude), (''lng'', opt_float longitude)]
                     else PNone)),
                 (''prediction'', PDict
                    [(''risk_level'', PStr ''medium''),
                     (''confidence'', PFloat (float_of_decimal fl 75 2))])])))"

definition upload_image_with_location ::
  "'f float_ops \<Rightarrow> (byte list \<Rightarrow> exception + 'img) \<Rightarrow> UploadFile \<Rightarrow>
   'f option \<Rightarrow> 'f option \<Rightarrow> string option \<Rightarrow> 'f pyval outcome" where
  "upload_image_with_location fl Image_open img latitude longitude timestamp =
     except_Exception_500
       (upload_image_with_location_body fl Image_open img latitude longitude timestamp)"

section \<open>integration_examples.py\<close>

text \<open>Example 6, \<open>upload_image\<close>: the same steps as the template's, with no \<open>try\<close>.\<close>

definition upload_image_example6 ::
  "'f float_ops \<Rightarrow> (byte list \<Rightarrow> exception + 'img) \<Rightarrow> UploadFile \<Rightarrow>
   string option \<Rightarrow> 'f pyval outcome" where
  "upload_image_example6 fl Image_open img timestamp =
     no_try
       (case read img of
          Inl e \<Rightarrow> Inl e
        | Inr contents \<Rightarrow>
           (case Image_open contents of
              Inl e \<Rightarrow> Inl e
            | Inr image_pil \<Rightarrow>
                Inr (PDict
                  [(''message'', PStr ''Image uploaded successfully''),
                   (''filename'', opt_str (filename img)),
                   (''size'', PInt (len contents)),
                   (''timestamp'', opt_str timestamp),
                   (''prediction'', PDict
                      [(''risk_level'', PStr ''medium''),
                       (''confidence'', PFloat (float_of_decimal fl 75 2)),
                       (''recommendations'', PList
                          [PStr ''Monitor area for 24 hours'',
                           PStr ''Prepare evacuation routes''])])])))"

section \<open>The response models of backend_map_endpoints_example.py\<close>

text \<open>
  A route declared with \<open>response_model=M\<close> does not send the dictionary its handler
  returns: the framework validates the dictionary against the class \<open>M\<close> and sends the
  fields of \<open>M\<close>, in the order of the class, a field that the dictionary lacks with its
  default; a dictionary without a required field, or with a value of another type, is an
  error of the server. A route with no response model sends the dictionary returned.

  The field types: \<open>int\<close>, \<open>str\<close>, \<open>float\<close> (which also takes an \<open>int\<close>, as the
  float of the same value), \<open>List[T]\<close>, and \<open>Optional[T]\<close>. The conversions between types
  that the values of these handlers never need (a numeral in a string, say) are left out:
  such a value is an error here.
\<close>

fun as_int :: "'f pyval \<Rightarrow> 'f pyval option" where
  "as_int (PInt n) = Some (PInt n)"
| "as_int _ = None"

fun as_str :: "'f pyval \<Rightarrow> 'f pyval option" where
  "as_str (PStr t) = Some (PStr t)"
| "as_str _ = None"

fun as_float :: "'f float_ops \<Rightarrow> 'f pyval \<Rightarrow> 'f pyval option" where
  "as_float fl (PFloat x) = Some (PFloat x)"
| "as_float fl (PInt n) = Some (PFloat (float_of_decimal fl n 0))"
| "as_float fl _ = None"

definition as_list_of :: "('f pyval \<Rightarrow> 'f pyval option) \<Rightarrow> 'f pyval \<Rightarrow> 'f pyval option" where
  "as_list_of item v =
     (case v of PList xs \<Rightarrow> map_option PList (those (map item xs)) | _ \<Rightarrow> None)"

definition as_optional :: "('f pyval \<Rightarrow> 'f pyval option) \<Rightarrow> 'f pyval \<Rightarrow> 'f pyval option" where
  "as_optional item v = (case v of PNone \<Rightarrow> Some PNone | _ \<Rightarrow> item v)"

text \<open>A field \<open>k: T\<close>, and a field \<open>k: Optional[T] = None\<close>, read from the
  association list of a dictionary.\<close>

definition required ::
  "('f pyval \<Rightarrow> 'f pyval option) \<Rightarrow> string \<Rightarrow> (string \<times> 'f pyval) list \<Rightarrow>
   (string \<times> 'f pyval) option" where
  "required item k d =
     (case map_of d k of None \<Rightarrow> None | Some v \<Rightarrow> map_option (Pair k) (item v))"

definition optional_default_None ::
  "('f pyval \<Rightarrow> 'f pyval option) \<Rightarrow> string \<Rightarrow> (string \<times> 'f pyval) list \<Rightarrow>
   (string \<times> 'f pyval) option" where
  "optional_default_None item k d =
     (case map_of d k of
        None \<Rightarrow> Some (k, PNone)
      | Some v \<Rightarrow> map_option (Pair k) (as_optional item v))"

definition WildfireLocation :: "'f float_ops \<Rightarrow> 'f pyval \<Rightarrow> 'f pyval option" where
  "WildfireLocation fl v =
     (case v of
        PDict d \<Rightarrow>
          map_option PDict (those
            [required as_int ''id'' d,
             required (as_float fl) ''lat'' d,
             required (as_float fl) ''lng'' d,
             required as_str ''intensity'' d,
             required (as_float fl) ''confidence'' d,
             optional_default_None as_str ''area'' d,
             required as_str ''detected_at'' d,
             required as_str ''status'' d,
             optional_default_None (as_list_of as_str) ''affected_infrastructure'' d])
      | _ \<Rightarrow> None)"

definition WildfireResponse :: "'f float_ops \<Rightarrow> 'f pyval \<Rightarrow> 'f pyval option" where
  "WildfireResponse fl v =
     (case v of
        PDict d \<Rightarrow>
          map_option PDict (those
            [required (as_list_of (WildfireLocation fl)) ''wildfires'' d,
             required as_int ''total'' d,
             optional_default_None (as_float fl) ''radius_km'' d,
             optional_default_None (as_float fl) ''center_lat'' d,
             optional_default_None (as_float fl) ''center_lng'' d])
      | _ \<Rightarrow> None)"

definition respond_with ::
  "('f pyval \<Rightarrow> 'f pyval option) \<Rightarrow> 'f pyval outcome \<Rightarrow> 'f pyval outcome" where
  "respond_with response_model out =
     (case out of
        Return v \<Rightarrow>
          (case response_model v of
             Some json \<Rightarrow> Return json
           | None \<Rightarrow> Raise (Exception ''ResponseValidationError''))
      | Raise_HTTPException status_code detail \<Rightarrow> Raise_HTTPException status_code detail
      | Raise e \<Rightarrow> Raise e)"

text \<open>What \<open>GET /api/wildfires/nearby\<close> and \<open>GET /api/wildfires/active\<close> of this file
  send.\<close>

definition get_wildfires_nearby_map_response ::
  "'f float_ops \<Rightarrow> 'f \<Rightarrow> 'f \<Rightarrow> 'f option \<Rightarrow> 'f pyval outcome" where
  "get_wildfires_nearby_map_response fl lat lng radius =
     respond_with (WildfireResponse fl) (get_wildfires_nearby_map fl lat lng radius)"

definition get_all_active_wildfires_map_response :: "'f float_ops \<Rightarrow> 'f pyval outcome" where
  "get_all_active_wildfires_map_response fl =
     respond_with (WildfireResponse fl) (get_all_active_wildfires_map fl)"

section \<open>The upload request and its binding to the parameters\<close>

text \<open>
  The framework fills the parameters of a handler from the request as the signature
  declares them: \<open>image: UploadFile = File(...)\<close> and a parameter with the default
  \<open>Form(None)\<close> from the part of that name in the multipart body, a \<open>str\<close> parameter
  with the plain default \<open>None\<close> from the query string. A request to
  \<open>POST /api/upload-image\<close> is its multipart parts and its query parameter, after the
  framework has validated them.

  The template and the map-endpoints example declare \<open>latitude\<close>, \<open>longitude\<close> and
  \<open>timestamp\<close> with \<open>Form(None)\<close>; the integration example and Example 6 declare
  \<open>timestamp: Optional[str] = None\<close>.
\<close>

record 'f upload_request =
  image_part :: UploadFile
  latitude_form :: "'f option"
  longitude_form :: "'f option"
  timestamp_form :: "string option"
  timestamp_query :: "string option"

definition post_upload_image_template ::
  "'f float_ops \<Rightarrow> (byte list \<Rightarrow> exception + 'img) \<Rightarrow> 'f upload_request \<Rightarrow> 'f pyval outcome" where
  "post_upload_image_template fl Image_open req =
     upload_image_template fl Image_open (image_part req)
       (latitude_form req) (longitude_form req) (timestamp_form req)"

definition post_upload_image_integration ::
  "'f float_ops \<Rightarrow> 'f upload_request \<Rightarrow> 'f pyval outcome" where
  "post_upload_image_integration fl req =
     upload_image_integration fl (image_part req) (timestamp_query req)"

definition post_upload_image_map ::
  "'f float_ops \<Rightarrow> (byte list \<Rightarrow> exception + 'img) \<Rightarrow> 'f upload_request \<Rightarrow> 'f pyval outcome" where
  "post_upload_image_map fl Image_open req =
     upload_image_with_location fl Image_open (image_part req)
       (latitude_form req) (longitude_form req) (timestamp_form req)"

definition post_upload_image_example6 ::
  "'f float_ops \<Rightarrow> (byte list \<Rightarrow> exception + 'img) \<Rightarrow> 'f upload_request \<Rightarrow> 'f pyval outcome" where
  "post_upload_image_example6 fl Image_open req =
     upload_image_example6 fl Image_open (image_part req) (timestamp_query req)"

section \<open>Cross-origin configuration\<close>

text \<open>
  The keyword arguments of \<open>app.add_middleware(CORSMiddleware, ...)\<close>. The middleware
  class is the framework's: it allows an origin when \<open>allow_origins\<close> holds \<open>*\<close> or the
  origin itself, and answers the preflight request of an allowed origin with that origin
  in \<open>Access-Control-Allow-Origin\<close> (with \<open>*\<close> when every origin is allowed and no
  credentials are).
\<close>

record CORSMiddleware =
  allow_origins :: "string list"
  allow_credentials :: bool
  allow_methods :: "string list"
  allow_headers :: "string list"

definition cors_template :: CORSMiddleware where
  "cors_template =
     \<lparr>allow_origins = [''http://localhost:3000'', ''http://127.0.0.1:3000''],
      allow_credentials = True,
      allow_methods = [''*''],
      allow_headers = [''*'']\<rparr>"

definition cors_integration :: CORSMiddleware where
  "cors_integration =
     \<lparr>allow_origins = [''http://localhost:3000'', ''http://127.0.0.1:3000''],
      allow_credentials = True,
      allow_methods = [''*''],
      allow_headers = [''*'']\<rparr>"

definition is_allowed_origin :: "CORSMiddleware \<Rightarrow> string \<Rightarrow> bool" where
  "is_allowed_origin cfg origin =
     (''*'' \<in> set (allow_origins cfg) \<or> origin \<in> set (allow_origins cfg))"

definition preflight_allow_origin :: "CORSMiddleware \<Rightarrow> string \<Rightarrow> string option" where
  "preflight_allow_origin cfg origin =
     (let allow_all_origins = (''*'' \<in> set (allow_origins cfg));
          preflight_explicit_allow_origin = (\<not> allow_all_origins \<or> allow_credentials cfg)
      in if preflight_explicit_allow_origin
         then (if is_allowed_origin cfg origin then Some origin else None)
         else Some ''*'')"

section \<open>Reading a response\<close>

text \<open>The value under a top-level key of the returned dictionary, and its list of keys;
  \<open>None\<close> when the handler did not return.\<close>

definition response_field :: "string \<Rightarrow> 'f pyval outcome \<Rightarrow> 'f pyval option" where
  "response_field k out = (case out of Return r \<Rightarrow> dict_get r k | _ \<Rightarrow> None)"

definition response_keys :: "'f pyval outcome \<Rightarrow> string list option" where
  "response_keys out = (case out of Return r \<Rightarrow> Some (keys r) | _ \<Rightarrow> None)"

text \<open>Both coordinates were sent and neither is \<open>0.0\<close>.\<close>

definition both_truthy :: "'f float_ops \<Rightarrow> 'f option \<Rightarrow> 'f option \<Rightarrow> bool" where
  "both_truthy fl latitude longitude =
     (case latitude of
        None \<Rightarrow> False
      | Some la \<Rightarrow>
         (case longitude of
            None \<Rightarrow> False
          | Some lo \<Rightarrow> \<not> float_is_zero fl la \<and> \<not> float_is_zero fl lo))"

section \<open>Concrete inputs\<close>

text \<open>
  For evaluating the handlers: the carrier of exact rationals, where every literal and
  every sum is exact; two PNG files of one pixel each (signature, \<open>IHDR\<close>, \<open>IDAT\<close>,
  \<open>IEND\<close>, with their checksums), one red and one blue; a stand-in for the library's
  plugins that knows the PNG format alone and looks at the signature, the head of the
  \<open>IHDR\<close> chunk and the closing \<open>IEND\<close> chunk, which takes the two files for images
  and the two bytes of a text file for none, as the library does; uploads whose read
  succeeds or fails.
\<close>

definition rat_ops :: "rat float_ops" where
  "rat_ops =
     \<lparr>float_of_decimal = (\<lambda>m k. of_int m / 10 ^ k),
      float_add = (\<lambda>x y. x + y),
      float_sub = (\<lambda>x y. x - y),
      float_is_zero = (\<lambda>x. x = 0)\<rparr>"

definition red_pixel_png :: "byte list" where
  "red_pixel_png =
     [0x89, 0x50, 0x4E, 0x47, 0x0D, 0x0A, 0x1A, 0x0A,
      0x00, 0x00, 0x00, 0x0D, 0x49, 0x48, 0x44, 0x52,
      0x00, 0x00, 0x00, 0x01, 0x00, 0x00, 0x00, 0x01, 0x08, 0x02, 0x00, 0x00, 0x00,
      0x90, 0x77, 0x53, 0xDE,
      0x00, 0x00, 0x00, 0x0C, 0x49, 0x44, 0x41, 0x54,
      0x78, 0xDA, 0x63, 0xF8, 0xCF, 0xC0, 0x00, 0x00, 0x03, 0x01, 0x01, 0x00,
      0xF7, 0x03, 0x41, 0x43,
      0x00, 0x00, 0x00, 0x00, 0x49, 0x45, 0x4E, 0x44, 0xAE, 0x42, 0x60, 0x82]"

definition blue_pixel_png :: "byte list" where
  "blue_pixel_png =
     [0x89, 0x50, 0x4E, 0x47, 0x0D, 0x0A, 0x1A, 0x0A,
      0x00, 0x00, 0x00, 0x0D, 0x49, 0x48, 0x44, 0x52,
      0x00, 0x00, 0x00, 0x01, 0x00, 0x00, 0x00, 0x01, 0x08, 0x02, 0x00, 0x00, 0x00,
      0x90, 0x77, 0x53, 0xDE,
      0x00, 0x00, 0x00, 0x0C, 0x49, 0x44, 0x41, 0x54,
      0x78, 0xDA, 0x63, 0x60, 0x60, 0xF8, 0x0F, 0x00, 0x01, 0x03, 0x01, 0x00,
      0x36, 0x74, 0x11, 0x40,
      0x00, 0x00, 0x00, 0x00, 0x49, 0x45, 0x4E, 0x44, 0xAE, 0x42, 0x60, 0x82]"

definition png_format :: "byte list \<Rightarrow> byte list identified" where
  "png_format contents =
     (if take 16 contents =
           [0x89, 0x50, 0x4E, 0x47, 0x0D, 0x0A, 0x1A, 0x0A,
            0x00, 0x00, 0x00, 0x0D, 0x49, 0x48, 0x44, 0x52]
         \<and> take 12 (rev contents) =
           rev [0x00, 0x00, 0x00, 0x00, 0x49, 0x45, 0x4E, 0x44, 0xAE, 0x42, 0x60, 0x82]
      then Identified contents
      else Unidentified)"

definition bytesio_repr :: string where
  "bytesio_repr = ''<_io.BytesIO object at 0x7f2b1c3d4e50>''"

definition png_only :: "byte list \<Rightarrow> exception + byte list" where
  "png_only = PIL_Image_open png_format bytesio_repr"

definition png_upload :: UploadFile where
  "png_upload = \<lparr>filename = Some ''fire.png'', read = Inr red_pixel_png\<rparr>"

definition other_png_upload :: UploadFile where
  "other_png_upload = \<lparr>filename = Some ''smoke.png'', read = Inr blue_pixel_png\<rparr>"

definition text_upload :: UploadFile where
  "text_upload = \<lparr>filename = Some ''notes.txt'', read = Inr [0x68, 0x69]\<rparr>"

definition broken_upload :: UploadFile where
  "broken_upload = \<lparr>filename = Some ''fire.png'', read = Inl (Exception ''connection lost'')\<rparr>"

text \<open>A request that sends a PNG and a timestamp as parts of the multipart body.\<close>

definition png_request :: "rat upload_request" where
  "png_request =
     \<lparr>image_part = png_upload,
      latitude_form = None,
      longitude_form = None,
      timestamp_form = Some ''2024-06-01T10:00:00Z'',
      timestamp_query = None\<rparr>"

section \<open>The paths through each handler\<close>

lemma truthy_py_and_opt_float:
  "truthy fl (py_and fl (opt_float latitude) (opt_float longitude)) =
     both_truthy fl latitude longitude"
  by (cases latitude; cases longitude) (simp_all add: py_and_def opt_float_def both_truthy_def)

subsection \<open>api_server_template.py\<close>

lemma upload_image_template_read_fails:
  "read img = Inl e \<Longrightarrow>
   upload_image_template fl Image_open img latitude longitude timestamp =
     Raise_HTTPException 500 (str_of e)"
  by (simp add: upload_image_template_def upload_image_template_body_def except_Exception_500_def)

lemma upload_image_template_open_fails:
  "read img = Inr contents \<Longrightarrow> Image_open contents = Inl e \<Longrightarrow>
   upload_image_template fl Image_open img latitude longitude timestamp =
     Raise_HTTPException 500 (str_of e)"
  by (simp add: upload_image_template_def upload_image_template_body_def except_Exception_500_def)

lemma upload_image_template_returns:
  "read img = Inr contents \<Longrightarrow> Image_open contents = Inr image_pil \<Longrightarrow>
   upload_image_template fl Image_open img latitude longitude timestamp =
     Return (PDict
       ([(''message'', PStr ''Image uploaded successfully''),
         (''filename'', opt_str (filename img)),
         (''size'', PInt (len contents)),
         (''timestamp'', opt_str timestamp),
         (''prediction'', PDict
            [(''risk_level'', PStr ''medium''),
             (''confidence'', PFloat (float_of_decimal fl 75 2)),
             (''recommendations'', PList
                [PStr ''Monitor area for 24 hours'',
                 PStr ''Prepare evacuation routes'',
                 PStr ''Alert nearby infrastructure''])])]
        @ (if both_truthy fl latitude longitude
           then [(''location'',
                  PDict [(''lat'', opt_float latitude), (''lng'', opt_float longitude)])]
           else [])))"
  by (simp add: upload_image_template_def upload_image_template_body_def except_Exception_500_def
      truthy_py_and_opt_float Let_def)

lemma upload_image_template_never_escapes:
  "upload_image_template fl Image_open img latitude longitude timestamp \<noteq> Raise x"
  by (simp add: upload_image_template_def upload_image_template_body_def except_Exception_500_def
      Let_def split: sum.splits)

lemma predict_wildfire_template_read_fails:
  "read img = Inl e \<Longrightarrow>
   predict_wildfire_template fl Image_open img = Raise_HTTPException 500 (str_of e)"
  by (simp add: predict_wildfire_template_def predict_wildfire_template_body_def
      except_Exception_500_def)

lemma predict_wildfire_template_open_fails:
  "read img = Inr contents \<Longrightarrow> Image_open contents = Inl e \<Longrightarrow>
   predict_wildfire_template fl Image_open img = Raise_HTTPException 500 (str_of e)"
  by (simp add: predict_wildfire_template_def predict_wildfire_template_body_def
      except_Exception_500_def)

lemma predict_wildfire_template_returns:
  "read img = Inr contents \<Longrightarrow> Image_open contents = Inr image_pil \<Longrightarrow>
   predict_wildfire_template fl Image_open img =
     Return (PDict
       [(''risk_level'', PStr ''high''),
        (''confidence'', PFloat (float_of_decimal fl 85 2)),
        (''affected_areas'', PList [PStr ''Area A'', PStr ''Area B'']),
        (''recommendations'', PDict
           [(''infrastructure'', PList
               [PStr ''Secure power lines in affected zone'',
                PStr ''Prepare water supply systems'',
                PStr ''Alert transportation department'']),
            (''evacuation'', PList
               [PStr ''Route 1: Clear'',
                PStr ''Route 2: Monitor''])])])"
  by (simp add: predict_wildfire_template_def predict_wildfire_template_body_def
      except_Exception_500_def)

lemma predict_wildfire_template_never_escapes:
  "predict_wildfire_template fl Image_open img \<noteq> Raise x"
  by (simp add: predict_wildfire_template_def predict_wildfire_template_body_def
      except_Exception_500_def split: sum.splits)

lemma get_wildfires_nearby_template_returns:
  "get_wildfires_nearby_template lat lng radius =
     Return (PDict
       [(''wildfires'', PList []),
        (''total'', PInt 0),
        (''radius_km'', (case radius of None \<Rightarrow> PInt 50 | Some r \<Rightarrow> PFloat r))])"
  by (simp add: get_wildfires_nearby_template_def except_Exception_500_def radius_param_def)

lemma get_all_active_wildfires_template_returns:
  "get_all_active_wildfires_template =
     Return (PDict [(''wildfires'', PList []), (''total'', PInt 0)])"
  by (simp add: get_all_active_wildfires_template_def except_Exception_500_def)

lemma get_infrastructure_recommendations_template_returns:
  "get_infrastructure_recommendations_template wildfire_data =
     Return infrastructure_recommendations_literal"
  by (simp add: get_infrastructure_recommendations_template_def except_Exception_500_def)

subsection \<open>backend_integration_example.py\<close>

lemma upload_image_integration_read_fails:
  "read img = Inl e \<Longrightarrow>
   upload_image_integration fl img timestamp = Raise_HTTPException 500 (str_of e)"
  by (simp add: upload_image_integration_def upload_image_integration_body_def
      except_Exception_500_def)

lemma upload_image_integration_returns:
  "read img = Inr contents \<Longrightarrow>
   upload_image_integration fl img timestamp =
     Return (PDict
       [(''message'', PStr ''Image uploaded successfully''),
        (''filename'', opt_str (filename img)),
        (''size'', PInt (len contents)),
        (''timestamp'', opt_str timestamp),
        (''prediction'', PDict
           [(''risk_level'', PStr ''medium''),
            (''confidence'', PFloat (float_of_decimal fl 75 2)),
            (''recommendations'', PList
               [PStr ''Monitor area for 24 hours'',
                PStr ''Prepare evacuation routes'',
                PStr ''Alert nearby infrastructure''])])])"
  by (simp add: upload_image_integration_def upload_image_integration_body_def
      except_Exception_500_def)

lemma upload_image_integration_never_escapes:
  "upload_image_integration fl img timestamp \<noteq> Raise x"
  by (simp add: upload_image_integration_def upload_image_integration_body_def
      except_Exception_500_def split: sum.splits)

lemma predict_wildfire_integration_read_fails:
  "read img = Inl e \<Longrightarrow>
   predict_wildfire_integration fl img = Raise_HTTPException 500 (str_of e)"
  by (simp add: predict_wildfire_integration_def predict_wildfire_integration_body_def
      except_Exception_500_def)

lemma predict_wildfire_integration_returns:
  "read img = Inr contents \<Longrightarrow>
   predict_wildfire_integration fl img =
     Return (PDict
       [(''risk_level'', PStr ''high''),
        (''confidence'', PFloat (float_of_decimal fl 85 2)),
        (''affected_areas'', PList [PStr ''Area A'', PStr ''Area B'']),
        (''recommendations'', PDict
           [(''infrastructure'', PList
               [PStr ''Secure power lines in affected zone'',
                PStr ''Prepare water supply systems'',
                PStr ''Alert transportation department'']),
            (''evacuation'', PList
               [PStr ''Route 1: Clear'',
                PStr ''Route 2: Monitor''])])])"
  by (simp add: predict_wildfire_integration_def predict_wildfire_integration_body_def
      except_Exception_500_def)

lemma predict_wildfire_integration_never_escapes:
  "predict_wildfire_integration fl img \<noteq> Raise x"
  by (simp add: predict_wildfire_integration_def predict_wildfire_integration_body_def
      except_Exception_500_def split: sum.splits)

subsection \<open>backend_map_endpoints_example.py\<close>

lemma get_wildfires_nearby_map_returns:
  "get_wildfires_nearby_map fl lat lng radius =
     Return (PDict
       [(''wildfires'', PList
          [PDict
             [(''id'', PInt 1),
              (''lat'', PFloat (float_add fl lat (float_of_decimal fl 5 2))),
              (''lng'', PFloat (float_add fl lng (float_of_decimal fl 5 2))),
              (''intensity'', PStr ''high''),
              (''confidence'', PFloat (float_of_decimal fl 85 2)),
              (''area'', PStr ''North Region''),
              (''detected_at'', PStr ''2024-01-01T12:00:00Z''),
              (''status'', PStr ''active''),
              (''affected_infrastructure'',
                 PList [PStr ''power_lines'', PStr ''water_supply''])],
           PDict
             [(''id'', PInt 2),
              (''lat'', PFloat (float_sub fl lat (float_of_decimal fl 3 2))),
              (''lng'', PFloat (float_add fl lng (float_of_decimal fl 8 2))),
              (''intensity'', PStr ''medium''),
              (''confidence'', PFloat (float_of_decimal fl 72 2)),
              (''area'', PStr ''East Region''),
              (''detected_at'', PStr ''2024-01-01T11:30:00Z''),
              (''status'', PStr ''active''),
              (''affected_infrastructure'', PList [PStr ''transportation''])]]),
        (''total'', PInt 2),
        (''radius_km'', (case radius of None \<Rightarrow> PInt 50 | Some r \<Rightarrow> PFloat r)),
        (''center_lat'', PFloat lat),
        (''center_lng'', PFloat lng)])"
  by (simp add: get_wildfires_nearby_map_def except_Exception_500_def len_def radius_param_def)

lemma get_all_active_wildfires_map_returns:
  "get_all_active_wildfires_map fl =
     Return (PDict
       [(''wildfires'', PList
          [PDict
             [(''id'', PInt 1),
              (''lat'', PFloat (float_of_decimal fl 377749 4)),
              (''lng'', PFloat (float_of_decimal fl (- 1224194) 4)),
              (''intensity'', PStr ''high''),
              (''confidence'', PFloat (float_of_decimal fl 85 2)),
              (''area'', PStr ''San Francisco Bay Area''),
              (''detected_at'', PStr ''2024-01-01T12:00:00Z''),
              (''status'', PStr ''active'')]]),
        (''total'', PInt 1)])"
  by (simp add: get_all_active_wildfires_map_def except_Exception_500_def len_def)

lemma upload_image_with_location_read_fails:
  "read img = Inl e \<Longrightarrow>
   upload_image_with_location fl Image_open img latitude longitude timestamp =
     Raise_HTTPException 500 (str_of e)"
  by (simp add: upload_image_with_location_def upload_image_with_location_body_def
      except_Exception_500_def)

lemma upload_image_with_location_open_fails:
  "read img = Inr contents \<Longrightarrow> Image_open contents = Inl e \<Longrightarrow>
   upload_image_with_location fl Image_open img latitude longitude timestamp =
     Raise_HTTPException 500 (str_of e)"
  by (simp add: upload_image_with_location_def upload_image_with_location_body_def
      except_Exception_500_def)

lemma upload_image_with_location_returns:
  "read img = Inr contents \<Longrightarrow> Image_open contents = Inr image_pil \<Longrightarrow>
   upload_image_with_location fl Image_open img latitude longitude timestamp =
     Return (PDict
       [(''message'', PStr ''Image uploaded successfully''),
        (''filename'', opt_str (filename img)),
        (''location'',
           (if both_truthy fl latitude longitude
            then PDict [(''lat'', opt_float latitude), (''lng'', opt_float longitude)]
            else PNone)),
        (''prediction'', PDict
           [(''risk_level'', PStr ''medium''),
            (''confidence'', PFloat (float_of_decimal fl 75 2))])])"
  by (simp add: upload_image_with_location_def upload_image_with_location_body_def
      except_Exception_500_def truthy_py_and_opt_float)

lemma upload_image_with_location_never_escapes:
  "upload_image_with_location fl Image_open img latitude longitude timestamp \<noteq> Raise x"
  by (simp add: upload_image_with_location_def upload_image_with_location_body_def
      except_Exception_500_def split: sum.splits)

lemma get_wildfires_nearby_map_response_returns:
  "get_wildfires_nearby_map_response fl lat lng radius =
     Return (PDict
       [(''wildfires'', PList
          [PDict
             [(''id'', PInt 1),
              (''lat'', PFloat (float_add fl lat (float_of_decimal fl 5 2))),
              (''lng'', PFloat (float_add fl lng (float_of_decimal fl 5 2))),
              (''intensity'', PStr ''high''),
              (''confidence'', PFloat (float_of_decimal fl 85 2)),
              (''area'', PStr ''North Region''),
              (''detected_at'', PStr ''2024-01-01T12:00:00Z''),
              (''status'', PStr ''active''),
              (''affected_infrastructure'',
                 PList [PStr ''power_lines'', PStr ''water_supply''])],
           PDict
             [(''id'', PInt 2),
              (''lat'', PFloat (float_sub fl lat (float_of_decimal fl 3 2))),
              (''lng'', PFloat (float_add fl lng (float_of_decimal fl 8 2))),
              (''intensity'', PStr ''medium''),
              (''confidence'', PFloat (float_of_decimal fl 72 2)),
              (''area'', PStr ''East Region''),
              (''detected_at'', PStr ''2024-01-01T11:30:00Z''),
              (''status'', PStr ''active''),
              (''affected_infrastructure'', PList [PStr ''transportation''])]]),
        (''total'', PInt 2),
        (''radius_km'',
           (case radius of None \<Rightarrow> PFloat (float_of_decimal fl 50 0) | Some r \<Rightarrow> PFloat r)),
        (''center_lat'', PFloat lat),
        (''center_lng'', PFloat lng)])"
  by (cases radius)
     (simp_all add: get_wildfires_nearby_map_response_def get_wildfires_nearby_map_returns
       respond_with_def WildfireResponse_def WildfireLocation_def required_def
       optional_default_None_def as_list_of_def as_optional_def)

lemma get_all_active_wildfires_map_response_returns:
  "get_all_active_wildfires_map_response fl =
     Return (PDict
       [(''wildfires'', PList
          [PDict
             [(''id'', PInt 1),
              (''lat'', PFloat (float_of_decimal fl 377749 4)),
              (''lng'', PFloat (float_of_decimal fl (- 1224194) 4)),
              (''intensity'', PStr ''high''),
              (''confidence'', PFloat (float_of_decimal fl 85 2)),
              (''area'', PStr ''San Francisco Bay Area''),
              (''detected_at'', PStr ''2024-01-01T12:00:00Z''),
              (''status'', PStr ''active''),
              (''affected_infrastructure'', PNone)]]),
        (''total'', PInt 1),
        (''radius_km'', PNone),
        (''center_lat'', PNone),
        (''center_lng'', PNone)])"
  by (simp add: get_all_active_wildfires_map_response_def get_all_active_wildfires_map_returns
      respond_with_def WildfireResponse_def WildfireLocation_def required_def
      optional_default_None_def as_list_of_def as_optional_def)

subsection \<open>integration_examples.py\<close>

lemma upload_image_example6_open_fails:
  "read img = Inr contents \<Longrightarrow> Image_open contents = Inl e \<Longrightarrow>
   upload_image_example6 fl Image_open img timestamp = Raise e"
  by (simp add: upload_image_example6_def no_try_def)

lemma upload_image_example6_returns:
  "read img = Inr contents \<Longrightarrow> Image_open contents = Inr image_pil \<Longrightarrow>
   upload_image_example6 fl Image_open img timestamp =
     Return (PDict
       [(''message'', PStr ''Image uploaded successfully''),
        (''filename'', opt_str (filename img)),
        (''size'', PInt (len contents)),
        (''timestamp'', opt_str timestamp),
        (''prediction'', PDict
           [(''risk_level'', PStr ''medium''),
            (''confidence'', PFloat (float_of_decimal fl 75 2)),
            (''recommendations'', PList
               [PStr ''Monitor area for 24 hours'',
                PStr ''Prepare evacuation routes''])])])"
  by (simp add: upload_image_example6_def no_try_def)

subsection \<open>The concrete inputs\<close>

lemma read_png_upload: "read png_upload = Inr red_pixel_png"
  by (simp add: png_upload_def)

lemma read_other_png_upload: "read other_png_upload = Inr blue_pixel_png"
  by (simp add: other_png_upload_def)

lemma read_text_upload: "read text_upload = Inr [0x68, 0x69]"
  by (simp add: text_upload_def)

lemma read_broken_upload: "read broken_upload = Inl (Exception ''connection lost'')"
  by (simp add: broken_upload_def)

lemma png_format_red_pixel_png: "png_format red_pixel_png = Identified red_pixel_png"
  by (simp add: png_format_def red_pixel_png_def)

lemma png_format_blue_pixel_png: "png_format blue_pixel_png = Identified blue_pixel_png"
  by (simp add: png_format_def blue_pixel_png_def)

lemma png_format_text_upload: "png_format [0x68, 0x69] = Unidentified"
  by (simp add: png_format_def)

lemma png_only_png_upload: "png_only red_pixel_png = Inr red_pixel_png"
  by (simp add: png_only_def PIL_Image_open_def png_format_red_pixel_png)

lemma png_only_other_png_upload: "png_only blue_pixel_png = Inr blue_pixel_png"
  by (simp add: png_only_def PIL_Image_open_def png_format_blue_pixel_png)

lemma png_only_text_upload:
  "png_only [0x68, 0x69] = Inl (Exception ''cannot identify image file <_io.BytesIO object at 0x7f2b1c3d4e50>'')"
  by (simp add: png_only_def PIL_Image_open_def png_format_text_upload bytesio_repr_def)

lemma length_red_pixel_png: "length red_pixel_png = 69"
  by (simp add: red_pixel_png_def)

lemma red_and_blue_differ: "red_pixel_png \<noteq> blue_pixel_png"
  by (simp add: red_pixel_png_def blue_pixel_png_def)

section \<open>The claims\<close>

text \<open>
  C4. The nearby handler of the map-endpoints example filters nothing: for every query
  \<open>(lat, lng, radius)\<close> it returns the same two wildfires, at \<open>(lat + 0.05, lng + 0.05)\<close>
  and \<open>(lat - 0.03, lng + 0.08)\<close>, with \<open>total\<close> 2; neither the list nor the total
  depends on the radius.
\<close>

theorem get_wildfires_nearby_map_two_fixed_offsets:
  "response_field ''wildfires'' (get_wildfires_nearby_map fl lat lng radius) =
     Some (PList
       [PDict
          [(''id'', PInt 1),
           (''lat'', PFloat (float_add fl lat (float_of_decimal fl 5 2))),
           (''lng'', PFloat (float_add fl lng (float_of_decimal fl 5 2))),
           (''intensity'', PStr ''high''),
           (''confidence'', PFloat (float_of_decimal fl 85 2)),
           (''area'', PStr ''North Region''),
           (''detected_at'', PStr ''2024-01-01T12:00:00Z''),
           (''status'', PStr ''active''),
           (''affected_infrastructure'',
              PList [PStr ''power_lines'', PStr ''water_supply''])],
        PDict
          [(''id'', PInt 2),
           (''lat'', PFloat (float_sub fl lat (float_of_decimal fl 3 2))),
           (''lng'', PFloat (float_add fl lng (float_of_decimal fl 8 2))),
           (''intensity'', PStr ''medium''),
           (''confidence'', PFloat (float_of_decimal fl 72 2)),
           (''area'', PStr ''East Region''),
           (''detected_at'', PStr ''2024-01-01T11:30:00Z''),
           (''status'', PStr ''active''),
           (''affected_infrastructure'', PList [PStr ''transportation''])]])
   \<and> response_field ''total'' (get_wildfires_nearby_map fl lat lng radius) = Some (PInt 2)
   \<and> response_field ''wildfires'' (get_wildfires_nearby_map fl lat lng radius) =
       response_field ''wildfires'' (get_wildfires_nearby_map fl lat lng radius')
   \<and> response_field ''total'' (get_wildfires_nearby_map fl lat lng radius) =
       response_field ''total'' (get_wildfires_nearby_map fl lat lng radius')"
  by (simp add: get_wildfires_nearby_map_returns response_field_def)

theorem get_wildfires_nearby_map_two_fixed_offsets_witness:
  "response_field ''wildfires'' (get_wildfires_nearby_map rat_ops 10 20 (Some 1)) =
     Some (PList
       [PDict
          [(''id'', PInt 1),
           (''lat'', PFloat (201 / 20)),
           (''lng'', PFloat (401 / 20)),
           (''intensity'', PStr ''high''),
           (''confidence'', PFloat (17 / 20)),
           (''area'', PStr ''North Region''),
           (''detected_at'', PStr ''2024-01-01T12:00:00Z''),
           (''status'', PStr ''active''),
           (''affected_infrastructure'',
              PList [PStr ''power_lines'', PStr ''water_supply''])],
        PDict
          [(''id'', PInt 2),
           (''lat'', PFloat (997 / 100)),
           (''lng'', PFloat (502 / 25)),
           (''intensity'', PStr ''medium''),
           (''confidence'', PFloat (18 / 25)),
           (''area'', PStr ''East Region''),
           (''detected_at'', PStr ''2024-01-01T11:30:00Z''),
           (''status'', PStr ''active''),
           (''affected_infrastructure'', PList [PStr ''transportation''])]])
   \<and> response_field ''total'' (get_wildfires_nearby_map rat_ops 10 20 (Some 1)) = Some (PInt 2)
   \<and> response_field ''wildfires'' (get_wildfires_nearby_map rat_ops 10 20 (Some 1)) =
       response_field ''wildfires'' (get_wildfires_nearby_map rat_ops 10 20 (Some 5000))"
proof -
  have offsets:
    "float_add rat_ops 10 (float_of_decimal rat_ops 5 2) = 201 / 20"
    "float_add rat_ops 20 (float_of_decimal rat_ops 5 2) = 401 / 20"
    "float_sub rat_ops 10 (float_of_decimal rat_ops 3 2) = 997 / 100"
    "float_add rat_ops 20 (float_of_decimal rat_ops 8 2) = 502 / 25"
    "float_of_decimal rat_ops 85 2 = 17 / 20"
    "float_of_decimal rat_ops 72 2 = 18 / 25"
    by (simp_all add: rat_ops_def)
  note near =
    get_wildfires_nearby_map_two_fixed_offsets [of rat_ops 10 20 "Some 1" "Some 5000"]
  from near show ?thesis
    unfolding offsets by blast
qed

text \<open>
  C9. In every response of the nearby and the active handlers, of the template and of the
  map-endpoints example, \<open>total\<close> is the length of the \<open>wildfires\<close> list of that
  response.
\<close>

theorem total_is_length_of_wildfires:
  "(\<exists>ws. response_field ''wildfires''
            (get_wildfires_nearby_template lat lng radius :: 'f pyval outcome) = Some (PList ws)
        \<and> response_field ''total''
            (get_wildfires_nearby_template lat lng radius :: 'f pyval outcome) =
              Some (PInt (int (length ws))))
   \<and> (\<exists>ws. response_field ''wildfires''
            (get_all_active_wildfires_template :: 'f pyval outcome) = Some (PList ws)
        \<and> response_field ''total''
            (get_all_active_wildfires_template :: 'f pyval outcome) =
              Some (PInt (int (length ws))))
   \<and> (\<exists>ws. response_field ''wildfires''
            (get_wildfires_nearby_map fl lat lng radius) = Some (PList ws)
        \<and> response_field ''total''
            (get_wildfires_nearby_map fl lat lng radius) = Some (PInt (int (length ws))))
   \<and> (\<exists>ws. response_field ''wildfires'' (get_all_active_wildfires_map fl) = Some (PList ws)
        \<and> response_field ''total'' (get_all_active_wildfires_map fl) =
              Some (PInt (int (length ws))))"
  by (simp add: get_wildfires_nearby_template_returns get_all_active_wildfires_template_returns
      get_wildfires_nearby_map_returns get_all_active_wildfires_map_returns response_field_def)

theorem total_is_length_of_wildfires_witness:
  "(\<exists>ws. response_field ''wildfires'' (get_wildfires_nearby_map rat_ops 10 20 (Some 5)) =
            Some (PList ws)
        \<and> response_field ''total'' (get_wildfires_nearby_map rat_ops 10 20 (Some 5)) =
            Some (PInt (int (length ws))))
   \<and> (\<exists>ws. response_field ''wildfires'' (get_all_active_wildfires_map rat_ops) =
            Some (PList ws)
        \<and> response_field ''total'' (get_all_active_wildfires_map rat_ops) =
            Some (PInt (int (length ws))))"
  using total_is_length_of_wildfires [of 10 20 "Some 5" rat_ops]
  by blast

text \<open>
  C10. The radius of a nearby query is 50 when the request has none, and \<open>radius_km\<close> in
  the response is that effective radius: 50 without a radius, the radius sent otherwise.
\<close>

theorem radius_km_is_effective_radius:
  "response_field ''radius_km'' (get_wildfires_nearby_template lat lng None) = Some (PInt 50)
   \<and> response_field ''radius_km'' (get_wildfires_nearby_template lat lng (Some r)) =
       Some (PFloat r)
   \<and> response_field ''radius_km'' (get_wildfires_nearby_map fl lat lng None) = Some (PInt 50)
   \<and> response_field ''radius_km'' (get_wildfires_nearby_map fl lat lng (Some r)) =
       Some (PFloat r)"
  by (simp add: get_wildfires_nearby_template_returns get_wildfires_nearby_map_returns
      response_field_def)

theorem radius_km_is_effective_radius_witness:
  "response_field ''radius_km'' (get_wildfires_nearby_template (10 :: rat) 20 None) =
     Some (PInt 50)
   \<and> response_field ''radius_km'' (get_wildfires_nearby_template (10 :: rat) 20 (Some 5)) =
       Some (PFloat 5)
   \<and> response_field ''radius_km'' (get_wildfires_nearby_map rat_ops 10 20 None) =
       Some (PInt 50)
   \<and> response_field ''radius_km'' (get_wildfires_nearby_map rat_ops 10 20 (Some 5)) =
       Some (PFloat 5)"
  using radius_km_is_effective_radius [of 10 20 5 rat_ops]
  by blast

text \<open>
  C7. The cross-origin configuration of the template and of the integration example
  allows the two local development origins \<open>http://localhost:3000\<close> and
  \<open>http://127.0.0.1:3000\<close> and no other origin; the preflight request of an allowed
  origin is answered with that origin in the allow-origin header, that of any other origin
  with no such header.
\<close>

theorem cors_allows_exactly_the_two_local_origins:
  "allow_origins cors_template = [''http://localhost:3000'', ''http://127.0.0.1:3000'']
   \<and> allow_origins cors_integration = [''http://localhost:3000'', ''http://127.0.0.1:3000'']
   \<and> is_allowed_origin cors_template origin =
       (origin = ''http://localhost:3000'' \<or> origin = ''http://127.0.0.1:3000'')
   \<and> is_allowed_origin cors_integration origin =
       (origin = ''http://localhost:3000'' \<or> origin = ''http://127.0.0.1:3000'')
   \<and> preflight_allow_origin cors_template origin =
       (if origin = ''http://localhost:3000'' \<or> origin = ''http://127.0.0.1:3000''
        then Some origin else None)
   \<and> preflight_allow_origin cors_integration origin =
       (if origin = ''http://localhost:3000'' \<or> origin = ''http://127.0.0.1:3000''
        then Some origin else None)"
  by (auto simp add: cors_template_def cors_integration_def is_allowed_origin_def
      preflight_allow_origin_def)

theorem cors_allows_exactly_the_two_local_origins_witness:
  "is_allowed_origin cors_template ''http://127.0.0.1:3000''
   \<and> is_allowed_origin cors_integration ''http://127.0.0.1:3000''
   \<and> preflight_allow_origin cors_template ''http://127.0.0.1:3000'' =
       Some ''http://127.0.0.1:3000''
   \<and> preflight_allow_origin cors_integration ''http://127.0.0.1:3000'' =
       Some ''http://127.0.0.1:3000''"
  using cors_allows_exactly_the_two_local_origins [of "''http://127.0.0.1:3000''"]
  by simp

text \<open>
  C5. The predict handler does not depend on the image: any two uploads that are read and
  decoded return the same literal value, with \<open>risk_level\<close> \<open>high\<close>, \<open>confidence\<close>
  \<open>0.85\<close> and the same \<open>affected_areas\<close> and \<open>recommendations\<close>. (The integration
  example's handler returns the same literal and decodes nothing.)
\<close>

theorem predict_wildfire_ignores_the_image:
  assumes "read img1 = Inr contents1" and "Image_open contents1 = Inr image_pil1"
    and "read img2 = Inr contents2" and "Image_open contents2 = Inr image_pil2"
  shows "predict_wildfire_template fl Image_open img1 = predict_wildfire_template fl Image_open img2
   \<and> predict_wildfire_template fl Image_open img1 =
       Return (PDict
         [(''risk_level'', PStr ''high''),
          (''confidence'', PFloat (float_of_decimal fl 85 2)),
          (''affected_areas'', PList [PStr ''Area A'', PStr ''Area B'']),
          (''recommendations'', PDict
             [(''infrastructure'', PList
                 [PStr ''Secure power lines in affected zone'',
                  PStr ''Prepare water supply systems'',
                  PStr ''Alert transportation department'']),
              (''evacuation'', PList
                 [PStr ''Route 1: Clear'',
                  PStr ''Route 2: Monitor''])])])
   \<and> predict_wildfire_integration fl img1 = predict_wildfire_integration fl img2
   \<and> predict_wildfire_integration fl img1 = predict_wildfire_template fl Image_open img1"
  using assms
  by (simp add: predict_wildfire_template_returns predict_wildfire_integration_returns)

theorem predict_wildfire_ignores_the_image_witness:
  "read png_upload = Inr red_pixel_png
   \<and> png_only red_pixel_png = Inr red_pixel_png
   \<and> read other_png_upload = Inr blue_pixel_png
   \<and> png_only blue_pixel_png = Inr blue_pixel_png
   \<and> predict_wildfire_template rat_ops png_only png_upload =
       predict_wildfire_template rat_ops png_only other_png_upload
   \<and> predict_wildfire_integration rat_ops png_upload =
       predict_wildfire_integration rat_ops other_png_upload"
proof -
  note paths = read_png_upload png_only_png_upload read_other_png_upload png_only_other_png_upload
  note same =
    predict_wildfire_ignores_the_image
      [where ?img1.0 = png_upload and ?img2.0 = other_png_upload and Image_open = png_only
         and fl = rat_ops, OF paths]
  from paths same show ?thesis
    by blast
qed

text \<open>
  C8. An upload handler that takes coordinates puts the location object into the response
  only when both \<open>latitude\<close> and \<open>longitude\<close> are true values: when either is absent
  or is \<open>0.0\<close>, the template omits \<open>location\<close> and the map-endpoints example sets it to
  \<open>None\<close>, also when the other coordinate was sent. The integration example and
  Example 6 take no coordinates and never return a \<open>location\<close>.
\<close>

theorem location_only_when_both_coordinates_truthy:
  assumes "read img = Inr contents" and "Image_open contents = Inr image_pil"
  shows "response_field ''location''
           (upload_image_template fl Image_open img latitude longitude timestamp) =
         (case latitude of
            None \<Rightarrow> None
          | Some la \<Rightarrow>
             (case longitude of
                None \<Rightarrow> None
              | Some lo \<Rightarrow>
                  if float_is_zero fl la \<or> float_is_zero fl lo then None
                  else Some (PDict [(''lat'', PFloat la), (''lng'', PFloat lo)])))
   \<and> response_field ''location''
           (upload_image_with_location fl Image_open img latitude longitude timestamp) =
         Some (case latitude of
            None \<Rightarrow> PNone
          | Some la \<Rightarrow>
             (case longitude of
                None \<Rightarrow> PNone
              | Some lo \<Rightarrow>
                  if float_is_zero fl la \<or> float_is_zero fl lo then PNone
                  else PDict [(''lat'', PFloat la), (''lng'', PFloat lo)]))
   \<and> response_field ''location'' (upload_image_integration fl img timestamp) = None
   \<and> response_field ''location'' (upload_image_example6 fl Image_open img timestamp) = None"
  using assms
  by (cases latitude; cases longitude)
     (simp_all add: upload_image_template_returns upload_image_with_location_returns
       upload_image_integration_returns upload_image_example6_returns
       response_field_def both_truthy_def opt_float_def)

theorem location_only_when_both_coordinates_truthy_witness:
  "read png_upload = Inr red_pixel_png
   \<and> png_only red_pixel_png = Inr red_pixel_png
   \<and> response_field ''location''
        (upload_image_template rat_ops png_only png_upload (Some 0) (Some (- 79)) None) = None
   \<and> response_field ''location''
        (upload_image_with_location rat_ops png_only png_upload (Some 0) (Some (- 79)) None) =
       Some PNone
   \<and> response_field ''location''
        (upload_image_template rat_ops png_only png_upload (Some 45) (Some (- 79)) None) =
       Some (PDict [(''lat'', PFloat 45), (''lng'', PFloat (- 79))])"
proof -
  note paths = read_png_upload png_only_png_upload
  have zero: "float_is_zero rat_ops 0" and nonzero: "\<not> float_is_zero rat_ops 45"
    "\<not> float_is_zero rat_ops (- 79)"
    by (simp_all add: rat_ops_def)
  note equator =
    location_only_when_both_coordinates_truthy
      [where img = png_upload and Image_open = png_only and fl = rat_ops
         and latitude = "Some 0" and longitude = "Some (- 79)" and timestamp = None, OF paths]
  note inland =
    location_only_when_both_coordinates_truthy
      [where img = png_upload and Image_open = png_only and fl = rat_ops
         and latitude = "Some 45" and longitude = "Some (- 79)" and timestamp = None, OF paths]
  from equator inland show ?thesis
    by (simp add: paths zero nonzero)
qed

text \<open>
  C6 (as amended). A successful upload to the template is answered with \<open>message\<close>
  \<open>Image uploaded successfully\<close>, \<open>filename\<close> the upload's file name, \<open>size\<close> the
  number of bytes read and \<open>timestamp\<close> the timestamp part of the form (\<open>None\<close>
  without one). The integration example and Example 6 of the integration examples answer
  with the same \<open>message\<close>, \<open>filename\<close> and \<open>size\<close>. The upload handler of the
  map-endpoints example answers with the same \<open>message\<close> and \<open>filename\<close> and has
  neither \<open>size\<close> nor \<open>timestamp\<close>.
\<close>

theorem upload_image_echoes_file_and_timestamp:
  assumes "read (image_part req) = Inr contents" and "Image_open contents = Inr image_pil"
  shows "response_field ''timestamp'' (post_upload_image_template fl Image_open req) =
           Some (case timestamp_form req of None \<Rightarrow> PNone | Some t \<Rightarrow> PStr t)
   \<and> (\<forall>out \<in> {post_upload_image_template fl Image_open req,
                  post_upload_image_integration fl req,
                  post_upload_image_example6 fl Image_open req}.
            response_field ''message'' out = Some (PStr ''Image uploaded successfully'')
          \<and> response_field ''filename'' out =
              Some (case filename (image_part req) of None \<Rightarrow> PNone | Some name \<Rightarrow> PStr name)
          \<and> response_field ''size'' out = Some (PInt (int (length contents))))
   \<and> response_field ''message'' (post_upload_image_map fl Image_open req) =
       Some (PStr ''Image uploaded successfully'')
   \<and> response_field ''filename'' (post_upload_image_map fl Image_open req) =
       Some (case filename (image_part req) of None \<Rightarrow> PNone | Some name \<Rightarrow> PStr name)
   \<and> response_field ''size'' (post_upload_image_map fl Image_open req) = None
   \<and> response_field ''timestamp'' (post_upload_image_map fl Image_open req) = None"
  using assms
  by (cases "both_truthy fl (latitude_form req) (longitude_form req)")
     (simp_all add: post_upload_image_template_def post_upload_image_integration_def
       post_upload_image_example6_def post_upload_image_map_def
       upload_image_template_returns upload_image_integration_returns
       upload_image_example6_returns upload_image_with_location_returns
       response_field_def opt_str_def len_def)

theorem upload_image_echoes_file_and_timestamp_witness:
  "read (image_part png_request) = Inr red_pixel_png
   \<and> png_only red_pixel_png = Inr red_pixel_png
   \<and> response_field ''timestamp'' (post_upload_image_template rat_ops png_only png_request) =
       Some (PStr ''2024-06-01T10:00:00Z'')
   \<and> response_field ''filename'' (post_upload_image_template rat_ops png_only png_request) =
       Some (PStr ''fire.png'')
   \<and> response_field ''size'' (post_upload_image_template rat_ops png_only png_request) =
       Some (PInt 69)
   \<and> response_field ''size'' (post_upload_image_integration rat_ops png_request) =
       Some (PInt 69)
   \<and> response_field ''size'' (post_upload_image_map rat_ops png_only png_request) = None"
proof -
  have part: "read (image_part png_request) = Inr red_pixel_png"
    by (simp add: png_request_def read_png_upload)
  have name: "filename (image_part png_request) = Some ''fire.png''"
    and sent: "timestamp_form png_request = Some ''2024-06-01T10:00:00Z''"
    by (simp_all add: png_request_def png_upload_def)
  note echoed =
    upload_image_echoes_file_and_timestamp
      [where req = png_request and Image_open = png_only and fl = rat_ops,
       OF part png_only_png_upload]
  from echoed show ?thesis
    by (simp add: part png_only_png_upload name sent length_red_pixel_png)
qed

text \<open>
  As stated for every upload handler, C6 fails on the map-endpoints example: the upload of
  a PNG file of one pixel, with its timestamp in the form, is read and decoded and is
  answered without \<open>size\<close> and without \<open>timestamp\<close>.
\<close>

theorem post_upload_image_map_has_neither_size_nor_timestamp:
  "read (image_part png_request) = Inr red_pixel_png
   \<and> png_only red_pixel_png = Inr red_pixel_png
   \<and> timestamp_form png_request = Some ''2024-06-01T10:00:00Z''
   \<and> response_keys (post_upload_image_map rat_ops png_only png_request) =
       Some [''message'', ''filename'', ''location'', ''prediction'']
   \<and> response_field ''size'' (post_upload_image_map rat_ops png_only png_request) = None
   \<and> response_field ''timestamp'' (post_upload_image_map rat_ops png_only png_request) = None"
  by (simp add: post_upload_image_map_def png_request_def upload_image_with_location_returns
      read_png_upload png_only_png_upload response_keys_def response_field_def)

text \<open>
  The integration example takes \<open>timestamp\<close> from the query string, though its docstring
  names it among the form data: the \<open>timestamp\<close> of its response is the query parameter,
  whatever the form holds, and the request above is answered with \<open>timestamp\<close>
  \<open>None\<close>.
\<close>

lemma post_upload_image_integration_timestamp:
  assumes "read (image_part req) = Inr contents"
  shows "response_field ''timestamp'' (post_upload_image_integration fl req) =
           Some (case timestamp_query req of None \<Rightarrow> PNone | Some t \<Rightarrow> PStr t)"
  using assms
  by (simp add: post_upload_image_integration_def upload_image_integration_returns
      response_field_def opt_str_def)

lemma post_upload_image_integration_ignores_form_timestamp:
  "timestamp_form png_request = Some ''2024-06-01T10:00:00Z''
   \<and> timestamp_query png_request = None
   \<and> response_field ''timestamp'' (post_upload_image_integration rat_ops png_request) =
       Some PNone"
  by (simp add: post_upload_image_integration_def png_request_def
      upload_image_integration_returns read_png_upload response_field_def opt_str_def)

text \<open>
  C3 (as amended). The JSON object with which a handler of the template, of the
  integration example or of the map-endpoints example answers a well-formed request has
  exactly the top-level keys of the interface table, with three exceptions: the template's
  nearby route sends \<open>wildfires\<close>, \<open>total\<close> and \<open>radius_km\<close> only; the upload route
  of the map-endpoints example sends \<open>message\<close>, \<open>filename\<close>, \<open>location\<close> and
  \<open>prediction\<close>; the active route of the map-endpoints example sends, besides
  \<open>wildfires\<close> and \<open>total\<close>, the keys \<open>radius_km\<close>, \<open>center_lat\<close> and
  \<open>center_lng\<close> of its response model, all three \<open>None\<close>. The nearby route of the
  map-endpoints example sends exactly \<open>wildfires\<close>, \<open>total\<close>, \<open>radius_km\<close>,
  \<open>center_lat\<close> and \<open>center_lng\<close>. The keys are listed in the order sent.
\<close>

theorem handlers_return_these_top_level_keys:
  assumes "read img = Inr contents" and "Image_open contents = Inr image_pil"
  shows "response_keys (get_status_template :: 'f pyval outcome) =
           Some [''status'', ''active_wildfires'', ''risk_level'', ''last_update'']
   \<and> response_keys (upload_image_template fl Image_open img latitude longitude timestamp) =
       Some ([''message'', ''filename'', ''size'', ''timestamp'', ''prediction'']
             @ (if both_truthy fl latitude longitude then [''location''] else []))
   \<and> response_keys (predict_wildfire_template fl Image_open img) =
       Some [''risk_level'', ''confidence'', ''affected_areas'', ''recommendations'']
   \<and> response_keys
         (get_infrastructure_recommendations_template wildfire_data :: 'f pyval outcome) =
       Some [''recommendations'', ''evacuation_routes'']
   \<and> response_keys (get_wildfires_nearby_template lat lng radius) =
       Some [''wildfires'', ''total'', ''radius_km'']
   \<and> response_keys (get_all_active_wildfires_template :: 'f pyval outcome) =
       Some [''wildfires'', ''total'']
   \<and> response_keys (get_status_integration :: 'f pyval outcome) =
       Some [''status'', ''active_wildfires'', ''risk_level'', ''last_update'']
   \<and> response_keys (upload_image_integration fl img timestamp) =
       Some [''message'', ''filename'', ''size'', ''timestamp'', ''prediction'']
   \<and> response_keys (predict_wildfire_integration fl img) =
       Some [''risk_level'', ''confidence'', ''affected_areas'', ''recommendations'']
   \<and> response_keys
         (get_infrastructure_recommendations_integration wildfire_data :: 'f pyval outcome) =
       Some [''recommendations'', ''evacuation_routes'']
   \<and> response_keys (get_wildfires_nearby_map_response fl lat lng radius) =
       Some [''wildfires'', ''total'', ''radius_km'', ''center_lat'', ''center_lng'']
   \<and> response_keys (get_all_active_wildfires_map_response fl) =
       Some [''wildfires'', ''total'', ''radius_km'', ''center_lat'', ''center_lng'']
   \<and> response_field ''radius_km'' (get_all_active_wildfires_map_response fl) = Some PNone
   \<and> response_field ''center_lat'' (get_all_active_wildfires_map_response fl) = Some PNone
   \<and> response_field ''center_lng'' (get_all_active_wildfires_map_response fl) = Some PNone
   \<and> response_keys
         (upload_image_with_location fl Image_open img latitude longitude timestamp) =
       Some [''message'', ''filename'', ''location'', ''prediction'']"
  using assms
  by (simp add: response_keys_def response_field_def
      get_status_template_def get_status_integration_def
      upload_image_template_returns predict_wildfire_template_returns
      get_infrastructure_recommendations_template_returns
      get_infrastructure_recommendations_integration_def
      infrastructure_recommendations_literal_def
      get_wildfires_nearby_template_returns get_all_active_wildfires_template_returns
      upload_image_integration_returns predict_wildfire_integration_returns
      get_wildfires_nearby_map_response_returns get_all_active_wildfires_map_response_returns
      upload_image_with_location_returns)

theorem handlers_return_these_top_level_keys_witness:
  "read png_upload = Inr red_pixel_png
   \<and> png_only red_pixel_png = Inr red_pixel_png
   \<and> response_keys
        (upload_image_template rat_ops png_only png_upload (Some 45) (Some (- 79)) None) =
       Some [''message'', ''filename'', ''size'', ''timestamp'', ''prediction'', ''location'']
   \<and> response_keys (get_wildfires_nearby_template (45 :: rat) (- 79) None) =
       Some [''wildfires'', ''total'', ''radius_km'']
   \<and> response_keys (get_wildfires_nearby_map_response rat_ops 45 (- 79) None) =
       Some [''wildfires'', ''total'', ''radius_km'', ''center_lat'', ''center_lng'']
   \<and> response_keys (get_all_active_wildfires_map_response rat_ops) =
       Some [''wildfires'', ''total'', ''radius_km'', ''center_lat'', ''center_lng'']
   \<and> response_field ''center_lat'' (get_all_active_wildfires_map_response rat_ops) =
       Some PNone
   \<and> response_keys
        (upload_image_with_location rat_ops png_only png_upload (Some 45) (Some (- 79)) None) =
       Some [''message'', ''filename'', ''location'', ''prediction'']"
proof -
  note paths = read_png_upload png_only_png_upload
  have both: "both_truthy rat_ops (Some 45) (Some (- 79))"
    by (simp add: both_truthy_def rat_ops_def)
  note inland =
    handlers_return_these_top_level_keys
      [where img = png_upload and Image_open = png_only and fl = rat_ops
         and latitude = "Some 45" and longitude = "Some (- 79)" and timestamp = None
         and lat = 45 and lng = "- 79" and radius = None and wildfire_data = PNone, OF paths]
  from inland paths show ?thesis
    by (simp only: both if_True append.simps) blast
qed

text \<open>
  As stated, C3 fails on the template's nearby handler: its response has no
  \<open>center_lat\<close> and no \<open>center_lng\<close>.
\<close>

theorem get_wildfires_nearby_template_has_three_keys:
  "response_keys (get_wildfires_nearby_template (45 :: rat) (- 79) (Some 50)) =
     Some [''wildfires'', ''total'', ''radius_km'']
   \<and> response_field ''center_lat'' (get_wildfires_nearby_template (45 :: rat) (- 79) (Some 50)) =
       None
   \<and> response_field ''center_lng'' (get_wildfires_nearby_template (45 :: rat) (- 79) (Some 50)) =
       None"
  by (simp add: get_wildfires_nearby_template_returns response_keys_def response_field_def)




text \<open>
  C1 (as amended). In the template, the integration example and the map-endpoints example
  every handler that reads or opens an upload does so inside
  \<open>try ... except Exception as e\<close>: an exception \<open>e\<close> raised by reading or by decoding
  leaves the handler as \<open>HTTPException\<close> with status 500 and detail \<open>str(e)\<close>, and no
  handler of these three files lets another exception out (the status handlers and the
  recommendations handler of the integration example have no \<open>try\<close> and return a
  literal). The handlers of the integration examples are not part of the statement:
  Example 6 there has no \<open>try\<close>.
\<close>

theorem exceptions_leave_the_three_servers_as_http_500:
  "(read img = Inl e \<longrightarrow>
      upload_image_template fl Image_open img latitude longitude timestamp =
        Raise_HTTPException 500 (str_of e)
    \<and> predict_wildfire_template fl Image_open img = Raise_HTTPException 500 (str_of e)
    \<and> upload_image_integration fl img timestamp = Raise_HTTPException 500 (str_of e)
    \<and> predict_wildfire_integration fl img = Raise_HTTPException 500 (str_of e)
    \<and> upload_image_with_location fl Image_open img latitude longitude timestamp =
        Raise_HTTPException 500 (str_of e))
   \<and> (read img = Inr contents \<and> Image_open contents = Inl e \<longrightarrow>
      upload_image_template fl Image_open img latitude longitude timestamp =
        Raise_HTTPException 500 (str_of e)
    \<and> predict_wildfire_template fl Image_open img = Raise_HTTPException 500 (str_of e)
    \<and> upload_image_with_location fl Image_open img latitude longitude timestamp =
        Raise_HTTPException 500 (str_of e))
   \<and> (get_status_template :: 'f pyval outcome) \<noteq> Raise x
   \<and> upload_image_template fl Image_open img latitude longitude timestamp \<noteq> Raise x
   \<and> predict_wildfire_template fl Image_open img \<noteq> Raise x
   \<and> (get_infrastructure_recommendations_template wildfire_data :: 'f pyval outcome) \<noteq> Raise x
   \<and> get_wildfires_nearby_template lat lng radius \<noteq> Raise x
   \<and> (get_all_active_wildfires_template :: 'f pyval outcome) \<noteq> Raise x
   \<and> (get_status_integration :: 'f pyval outcome) \<noteq> Raise x
   \<and> upload_image_integration fl img timestamp \<noteq> Raise x
   \<and> predict_wildfire_integration fl img \<noteq> Raise x
   \<and> (get_infrastructure_recommendations_integration wildfire_data :: 'f pyval outcome)
        \<noteq> Raise x
   \<and> get_wildfires_nearby_map fl lat lng radius \<noteq> Raise x
   \<and> get_all_active_wildfires_map fl \<noteq> Raise x
   \<and> upload_image_with_location fl Image_open img latitude longitude timestamp \<noteq> Raise x"
  by (simp add: upload_image_template_read_fails predict_wildfire_template_read_fails
      upload_image_integration_read_fails predict_wildfire_integration_read_fails
      upload_image_with_location_read_fails
      upload_image_template_open_fails predict_wildfire_template_open_fails
      upload_image_with_location_open_fails
      upload_image_template_never_escapes predict_wildfire_template_never_escapes
      upload_image_integration_never_escapes predict_wildfire_integration_never_escapes
      upload_image_with_location_never_escapes
      get_status_template_def get_status_integration_def
      get_infrastructure_recommendations_template_returns
      get_infrastructure_recommendations_integration_def
      get_wildfires_nearby_template_returns get_all_active_wildfires_template_returns
      get_wildfires_nearby_map_returns get_all_active_wildfires_map_returns)

theorem exceptions_leave_the_three_servers_as_http_500_witness:
  "read broken_upload = Inl (Exception ''connection lost'')
   \<and> upload_image_template rat_ops png_only broken_upload None None None =
       Raise_HTTPException 500 ''connection lost''
   \<and> predict_wildfire_integration rat_ops broken_upload =
       Raise_HTTPException 500 ''connection lost''
   \<and> read text_upload = Inr [0x68, 0x69]
   \<and> png_only [0x68, 0x69] = Inl (Exception ''cannot identify image file <_io.BytesIO object at 0x7f2b1c3d4e50>'')
   \<and> upload_image_template rat_ops png_only text_upload None None None =
       Raise_HTTPException 500 ''cannot identify image file <_io.BytesIO object at 0x7f2b1c3d4e50>''
   \<and> upload_image_with_location rat_ops png_only text_upload None None None =
       Raise_HTTPException 500 ''cannot identify image file <_io.BytesIO object at 0x7f2b1c3d4e50>''"
proof -
  note unread =
    exceptions_leave_the_three_servers_as_http_500
      [where img = broken_upload and e = "Exception ''connection lost''"
         and Image_open = png_only and fl = rat_ops
         and latitude = None and longitude = None and timestamp = None,
       THEN conjunct1, THEN mp, OF read_broken_upload]
  note undecoded =
    exceptions_leave_the_three_servers_as_http_500
      [where img = text_upload and e = "Exception ''cannot identify image file <_io.BytesIO object at 0x7f2b1c3d4e50>''"
         and contents = "[0x68, 0x69]" and Image_open = png_only and fl = rat_ops
         and latitude = None and longitude = None and timestamp = None,
       THEN conjunct2, THEN conjunct1, THEN mp,
       OF conjI [OF read_text_upload png_only_text_upload]]
  from unread undecoded read_broken_upload read_text_upload png_only_text_upload
  show ?thesis
    by (simp only: exception.sel)
qed

text \<open>
  As stated for every handler of every server file, C1 fails on Example 6 of the
  integration examples: the decoder's exception leaves the handler as it is.
\<close>

theorem upload_image_example6_lets_the_exception_out:
  "read text_upload = Inr [0x68, 0x69]
   \<and> png_only [0x68, 0x69] = Inl (Exception ''cannot identify image file <_io.BytesIO object at 0x7f2b1c3d4e50>'')
   \<and> upload_image_example6 rat_ops png_only text_upload None =
       Raise (Exception ''cannot identify image file <_io.BytesIO object at 0x7f2b1c3d4e50>'')"
  by (simp add: upload_image_example6_open_fails read_text_upload png_only_text_upload)

end
